theory Spec2Isabelle
  imports Complex_Main "HOL-Library.Char_ord" "HOL-Library.List_Lexorder"
begin

section \<open>Values, errors and tensors\<close>

text \<open>
  The exceptions the modelled code can raise. A computation that may raise has the
  type \<open>py_error + 'a\<close>, with \<open>Inl\<close> for the exception.
\<close>

datatype py_error = TypeError | AttributeError | RuntimeError | IndexError | LoadError

definition bind_err :: "py_error + 'a \<Rightarrow> ('a \<Rightarrow> py_error + 'b) \<Rightarrow> py_error + 'b" where
  "bind_err r f = (case r of Inl e \<Rightarrow> Inl e | Inr v \<Rightarrow> f v)"

text \<open>
  A tensor element. Entries are real numbers (the rounding and the overflow of float32
  are not modelled); \<open>NonFin\<close> stands for the non-finite results \<open>inf\<close>, \<open>-inf\<close> and
  \<open>nan\<close> that the tensor library returns, without raising, where a real number has no
  value: a division by zero, \<open>acosh\<close> below 1. In the operations used here a non-finite
  operand always gives a non-finite result.
\<close>

datatype tval = Fin real | NonFin

fun tadd :: "tval \<Rightarrow> tval \<Rightarrow> tval" where
  "tadd (Fin a) (Fin b) = Fin (a + b)"
| "tadd _ _ = NonFin"

fun tmul :: "tval \<Rightarrow> real \<Rightarrow> tval" where
  "tmul (Fin a) m = Fin (a * m)"
| "tmul NonFin m = NonFin"

fun tdiv :: "tval \<Rightarrow> real \<Rightarrow> tval" where
  "tdiv (Fin a) d = (if d = 0 then NonFin else Fin (a / d))"
| "tdiv NonFin d = NonFin"

fun tacosh :: "tval \<Rightarrow> tval" where
  "tacosh (Fin x) = (if x < 1 then NonFin else Fin (arcosh x))"
| "tacosh NonFin = NonFin"

definition tsum :: "tval list \<Rightarrow> tval" where
  "tsum xs = foldr tadd xs (Fin 0)"

text \<open>A 2-D tensor is the list of its rows; a 1-D tensor is a list.\<close>

type_synonym matrix = "real list list"

text \<open>
  Broadcasting of two 1-D shapes: equal lengths pair up, a length of one is repeated,
  anything else raises.
\<close>

definition bcast :: "'a list \<Rightarrow> 'b list \<Rightarrow> py_error + ('a \<times> 'b) list" where
  "bcast xs ys =
     (if length xs = length ys then Inr (zip xs ys)
      else if length xs = 1 then Inr (map (\<lambda>y. (hd xs, y)) ys)
      else if length ys = 1 then Inr (map (\<lambda>x. (x, hd ys)) xs)
      else Inl RuntimeError)"

fun sequence_err :: "(py_error + 'a) list \<Rightarrow> py_error + 'a list" where
  "sequence_err [] = Inr []"
| "sequence_err (r # rs) =
     (case r of Inl e \<Rightarrow> Inl e
      | Inr v \<Rightarrow> (case sequence_err rs of Inl e \<Rightarrow> Inl e | Inr vs \<Rightarrow> Inr (v # vs)))"

definition sub_row :: "real list \<Rightarrow> real list \<Rightarrow> py_error + real list" where
  "sub_row r1 r2 = bind_err (bcast r1 r2) (\<lambda>ps. Inr (map (\<lambda>(x, y). x - y) ps))"

definition sub_mat :: "matrix \<Rightarrow> matrix \<Rightarrow> py_error + matrix" where
  "sub_mat z1 z2 =
     bind_err (bcast z1 z2) (\<lambda>ps. sequence_err (map (\<lambda>(r1, r2). sub_row r1 r2) ps))"

definition row_norm :: "real list \<Rightarrow> real" where
  "row_norm v = sqrt (sum_list (map (\<lambda>x. x\<^sup>2) v))"

definition norm_dim1 :: "matrix \<Rightarrow> real list" where
  "norm_dim1 z = map row_norm z"

section \<open>Geometry utilities\<close>

text \<open>
  \<^verbatim>\<open>
  def hyperbolic_distance(z1, z2):
      return torch.acosh(1 + 2 * ((z1 - z2).norm(dim=1) ** 2)
                 / (1 - (z1.norm(dim=1) ** 2)) / (1 - (z2.norm(dim=1) ** 2)))
  \<close>
  The result is a 1-D tensor. The two divisions are taken one after the other, as
  the source writes them.
\<close>

definition hyperbolic_distance :: "matrix \<Rightarrow> matrix \<Rightarrow> py_error + tval list" where
  "hyperbolic_distance z1 z2 =
     bind_err (sub_mat z1 z2) (\<lambda>d.
     bind_err (bcast (map (\<lambda>n. 2 * n\<^sup>2) (norm_dim1 d)) (map (\<lambda>n. 1 - n\<^sup>2) (norm_dim1 z1))) (\<lambda>p.
     bind_err (bcast (map (\<lambda>(x, a). tdiv (Fin x) a) p) (map (\<lambda>n. 1 - n\<^sup>2) (norm_dim1 z2))) (\<lambda>q.
     Inr (map (\<lambda>(y, b). tacosh (tadd (Fin 1) (tdiv y b))) q))))"

text \<open>
  \<^verbatim>\<open>
  def sliced_wasserstein_distance(z1, z2):
      loss = SamplesLoss(loss="sinkhorn", p=2, blur=0.05)
      return loss(z1, z2)
  \<close>
  \<open>SamplesLoss\<close> belongs to an external library: the cost it returns for two point
  clouds, a single scalar, is the parameter \<open>sw\<close> of every function below.
\<close>

type_synonym sinkhorn = "matrix \<Rightarrow> matrix \<Rightarrow> real"

definition sliced_wasserstein_distance :: "sinkhorn \<Rightarrow> matrix \<Rightarrow> matrix \<Rightarrow> real" where
  "sliced_wasserstein_distance sw z1 z2 = sw z1 z2"

section \<open>Contrastive losses\<close>

definition eye :: "nat \<Rightarrow> matrix" where
  "eye n = map (\<lambda>i. map (\<lambda>j. if i = j then 1 else 0) [0..<n]) [0..<n]"

definition mat_sum :: "matrix \<Rightarrow> real" where
  "mat_sum m = sum_list (concat m)"

text \<open>The product of a 1-D tensor with a 2-D mask (the vector is broadcast over the rows).\<close>

definition vec_times_mask :: "tval list \<Rightarrow> matrix \<Rightarrow> py_error + tval list list" where
  "vec_times_mask d m =
     sequence_err (map (\<lambda>row. bind_err (bcast d row) (\<lambda>ps. Inr (map (\<lambda>(x, w). tmul x w) ps))) m)"

text \<open>The product of a scalar with a 2-D mask.\<close>

definition scalar_times_mask :: "real \<Rightarrow> matrix \<Rightarrow> matrix" where
  "scalar_times_mask c m = map (map (\<lambda>w. c * w)) m"

text \<open>
  \<^verbatim>\<open>
  def node_node_loss(node_rep1, node_rep2):
      num_nodes = node_rep1.shape[0]
      pos_mask = torch.eye(num_nodes).cuda()
      return (hyperbolic_distance(node_rep1, node_rep2) * pos_mask).sum() / pos_mask.sum()
  \<close>
\<close>

definition node_node_loss :: "matrix \<Rightarrow> matrix \<Rightarrow> py_error + tval" where
  "node_node_loss node_rep1 node_rep2 =
     (let num_nodes = length node_rep1;
          pos_mask = eye num_nodes
      in bind_err (hyperbolic_distance node_rep1 node_rep2) (\<lambda>d.
         bind_err (vec_times_mask d pos_mask) (\<lambda>prod.
         Inr (tdiv (tsum (concat prod)) (mat_sum pos_mask)))))"

text \<open>
  \<^verbatim>\<open>
  def seq_seq_loss(seq_rep1, seq_rep2):
      batch_size = seq_rep1.shape[0]
      pos_mask = torch.eye(batch_size).cuda()
      return (sliced_wasserstein_distance(seq_rep1, seq_rep2) * pos_mask).sum() / pos_mask.sum()
  \<close>
\<close>

definition seq_seq_loss :: "sinkhorn \<Rightarrow> matrix \<Rightarrow> matrix \<Rightarrow> py_error + tval" where
  "seq_seq_loss sw seq_rep1 seq_rep2 =
     (let batch_size = length seq_rep1;
          pos_mask = eye batch_size
      in Inr (tdiv (Fin (mat_sum (scalar_times_mask
                (sliced_wasserstein_distance sw seq_rep1 seq_rep2) pos_mask)))
            (mat_sum pos_mask)))"

text \<open>
  The mask loop of \<open>node_seq_loss\<close>:
  \<^verbatim>\<open>
      pos_mask = torch.zeros((batch_size, num_nodes + 1)).cuda()
      for row_idx, row in enumerate(sequences):
          pos_mask[row_idx][row] = 1.
      pos_mask = pos_mask[:, :-1]
  \<close>
  A token indexes a row of width \<open>num_nodes + 1\<close>: a negative token counts from the end,
  a token out of range raises, and so does a sequence beyond the last row of the mask.
\<close>

definition zeros :: "nat \<Rightarrow> nat \<Rightarrow> matrix" where
  "zeros r c = replicate r (replicate c 0)"

fun set_tokens :: "real list \<Rightarrow> int list \<Rightarrow> py_error + real list" where
  "set_tokens mrow [] = Inr mrow"
| "set_tokens mrow (t # ts) =
     (let n = int (length mrow); j = (if t < 0 then n + t else t)
      in if 0 \<le> j \<and> j < n then set_tokens (mrow[nat j := 1]) ts else Inl IndexError)"

fun mark_rows :: "matrix \<Rightarrow> nat \<Rightarrow> int list list \<Rightarrow> py_error + matrix" where
  "mark_rows pos_mask row_idx [] = Inr pos_mask"
| "mark_rows pos_mask row_idx (row # rest) =
     (if row_idx < length pos_mask
      then bind_err (set_tokens (pos_mask ! row_idx) row) (\<lambda>r.
             mark_rows (pos_mask[row_idx := r]) (Suc row_idx) rest)
      else Inl IndexError)"

definition full_pos_mask :: "nat \<Rightarrow> nat \<Rightarrow> int list list \<Rightarrow> py_error + matrix" where
  "full_pos_mask batch_size num_nodes sequences =
     mark_rows (zeros batch_size (num_nodes + 1)) 0 sequences"

definition drop_last_column :: "matrix \<Rightarrow> matrix" where
  "drop_last_column m = map butlast m"

text \<open>The mean of a 1-D tensor; the mean of an empty tensor is \<open>nan\<close>.\<close>

definition tmean :: "tval list \<Rightarrow> tval" where
  "tmean xs = tdiv (tsum xs) (real (length xs))"

text \<open>
  \<^verbatim>\<open>
  def node_seq_loss(node_rep, seq_rep, sequences):
      batch_size = seq_rep.shape[0]
      num_nodes = node_rep.shape[0]
      ... (the mask loop) ...
      return (sliced_wasserstein_distance(seq_rep, node_rep) * pos_mask).sum() / pos_mask.sum()
             + hyperbolic_distance(seq_rep, node_rep).mean()
  \<close>
\<close>

definition node_seq_loss :: "sinkhorn \<Rightarrow> matrix \<Rightarrow> matrix \<Rightarrow> int list list \<Rightarrow> py_error + tval" where
  "node_seq_loss sw node_rep seq_rep sequences =
     (let batch_size = length seq_rep;
          num_nodes = length node_rep
      in bind_err (full_pos_mask batch_size num_nodes sequences) (\<lambda>full.
         let pos_mask = drop_last_column full;
             masked = tdiv (Fin (mat_sum (scalar_times_mask
                        (sliced_wasserstein_distance sw seq_rep node_rep) pos_mask)))
                      (mat_sum pos_mask)
         in bind_err (hyperbolic_distance seq_rep node_rep) (\<lambda>d.
            Inr (tadd masked (tmean d)))))"

text \<open>
  \<^verbatim>\<open>
  def weighted_ns_loss(node_rep, seq_rep, weights):
      return (sliced_wasserstein_distance(seq_rep, node_rep) * weights).sum() / weights.sum()
  \<close>
\<close>

definition weighted_ns_loss :: "sinkhorn \<Rightarrow> matrix \<Rightarrow> matrix \<Rightarrow> matrix \<Rightarrow> py_error + tval" where
  "weighted_ns_loss sw node_rep seq_rep weights =
     Inr (tdiv (Fin (mat_sum (scalar_times_mask
            (sliced_wasserstein_distance sw seq_rep node_rep) weights)))
          (mat_sum weights))"

text \<open>
  The quantities the specification names, for comparison with the code: the Poincare
  distance of one pair of rows, and the row of the positive mask of one token sequence
  (entry \<open>t\<close> is 1 when token \<open>t\<close> occurs in the sequence).
\<close>

definition poincare_distance :: "real list \<Rightarrow> real list \<Rightarrow> real" where
  "poincare_distance x y =
     arcosh (1 + 2 * (row_norm (map2 (-) x y))\<^sup>2
                   / ((1 - (row_norm x)\<^sup>2) * (1 - (row_norm y)\<^sup>2)))"

definition token_marks :: "nat \<Rightarrow> int list \<Rightarrow> real list" where
  "token_marks w row = map (\<lambda>j. if int j \<in> set row then 1 else 0) [0..<w]"

section \<open>Calls of the loss functions\<close>

text \<open>
  The values that the training loop passes to the loss functions. A call of a function
  defined with \<open>k\<close> positional parameters raises \<open>TypeError\<close> unless it is given
  exactly \<open>k\<close> arguments; only then does the body run. An argument that is not a tensor
  where the body reads \<open>.shape\<close> or \<open>.sum()\<close> raises \<open>AttributeError\<close>.
\<close>

datatype pyval = TensorV matrix | TokensV "int list list" | StrV string | IntV int

definition call_node_node_loss :: "pyval list \<Rightarrow> py_error + tval" where
  "call_node_node_loss args =
     (case args of
        [node_rep1, node_rep2] \<Rightarrow>
          (case (node_rep1, node_rep2) of
             (TensorV a, TensorV b) \<Rightarrow> node_node_loss a b
           | _ \<Rightarrow> Inl AttributeError)
      | _ \<Rightarrow> Inl TypeError)"

definition call_seq_seq_loss :: "sinkhorn \<Rightarrow> pyval list \<Rightarrow> py_error + tval" where
  "call_seq_seq_loss sw args =
     (case args of
        [seq_rep1, seq_rep2] \<Rightarrow>
          (case (seq_rep1, seq_rep2) of
             (TensorV a, TensorV b) \<Rightarrow> seq_seq_loss sw a b
           | _ \<Rightarrow> Inl AttributeError)
      | _ \<Rightarrow> Inl TypeError)"

definition call_node_seq_loss :: "sinkhorn \<Rightarrow> pyval list \<Rightarrow> py_error + tval" where
  "call_node_seq_loss sw args =
     (case args of
        [node_rep, seq_rep, sequences] \<Rightarrow>
          (case (node_rep, seq_rep, sequences) of
             (TensorV n, TensorV s, TokensV q) \<Rightarrow> node_seq_loss sw n s q
           | _ \<Rightarrow> Inl AttributeError)
      | _ \<Rightarrow> Inl TypeError)"

definition call_weighted_ns_loss :: "sinkhorn \<Rightarrow> pyval list \<Rightarrow> py_error + tval" where
  "call_weighted_ns_loss sw args =
     (case args of
        [node_rep, seq_rep, weights] \<Rightarrow>
          (case (node_rep, seq_rep, weights) of
             (TensorV n, TensorV s, TensorV w) \<Rightarrow> weighted_ns_loss sw n s w
           | _ \<Rightarrow> Inl AttributeError)
      | _ \<Rightarrow> Inl TypeError)"

section \<open>Training\<close>

text \<open>The keys of the configuration dictionary that the modelled code reads.\<close>

record config =
  num_epochs :: int
  loss_measure :: string
  weighted_loss :: bool
  mode :: string
  lambda_st :: real
  num_samples :: int
  retrain :: bool

fun tscale :: "real \<Rightarrow> tval \<Rightarrow> tval" where
  "tscale c (Fin a) = Fin (c * a)"
| "tscale c NonFin = NonFin"

text \<open>
  The loss of one batch, lines 317 to 326 of \<open>train\<close>, from the two views
  \<open>(node_rep1, seq_rep1)\<close> and \<open>(node_rep2, seq_rep2)\<close>:
  \<^verbatim>\<open>
      loss_ss = node_node_loss(node_rep1, node_rep2, measure)
      loss_tt = seq_seq_loss(seq_rep1, seq_rep2, measure)
      if is_weighted:
          loss_st1 = weighted_ns_loss(node_rep1, seq_rep2, w_batch, measure)
          loss_st2 = weighted_ns_loss(node_rep2, seq_rep1, w_batch, measure)
      else:
          loss_st1 = node_seq_loss(node_rep1, seq_rep2, data_batch, measure)
          loss_st2 = node_seq_loss(node_rep2, seq_rep1, data_batch, measure)
      loss_st = (loss_st1 + loss_st2) / 2
      loss = l_ss * loss_ss + l_tt * loss_tt + l_st * loss_st
  \<close>
  with \<open>l_st = config['lambda_st']\<close> and \<open>l_ss = l_tt = 0.5 * (1 - l_st)\<close>.
\<close>

definition batch_loss ::
  "sinkhorn \<Rightarrow> config \<Rightarrow> matrix \<times> matrix \<Rightarrow> matrix \<times> matrix \<Rightarrow> int list list \<Rightarrow> pyval
     \<Rightarrow> py_error + tval" where
  "batch_loss sw cfg view1 view2 data_batch w_batch =
     (let (node_rep1, seq_rep1) = view1;
          (node_rep2, seq_rep2) = view2;
          measure = StrV (loss_measure cfg);
          l_st = lambda_st cfg;
          l_ss = 0.5 * (1 - l_st);
          l_tt = l_ss
      in bind_err (call_node_node_loss [TensorV node_rep1, TensorV node_rep2, measure]) (\<lambda>loss_ss.
         bind_err (call_seq_seq_loss sw [TensorV seq_rep1, TensorV seq_rep2, measure]) (\<lambda>loss_tt.
         bind_err
           (if weighted_loss cfg
            then bind_err (call_weighted_ns_loss sw
                     [TensorV node_rep1, TensorV seq_rep2, w_batch, measure]) (\<lambda>loss_st1.
                 bind_err (call_weighted_ns_loss sw
                     [TensorV node_rep2, TensorV seq_rep1, w_batch, measure]) (\<lambda>loss_st2.
                 Inr (loss_st1, loss_st2)))
            else bind_err (call_node_seq_loss sw
                     [TensorV node_rep1, TensorV seq_rep2, TokensV data_batch, measure]) (\<lambda>loss_st1.
                 bind_err (call_node_seq_loss sw
                     [TensorV node_rep2, TensorV seq_rep1, TokensV data_batch, measure]) (\<lambda>loss_st2.
                 Inr (loss_st1, loss_st2))))
           (\<lambda>(loss_st1, loss_st2).
              let loss_st = tdiv (tadd loss_st1 loss_st2) 2
              in Inr (tadd (tadd (tscale l_ss loss_ss) (tscale l_tt loss_tt))
                        (tscale l_st loss_st))))))"

subsection \<open>Checkpoint names and the resume step\<close>

text \<open>\<open>str\<close> of an integer, and \<open>"_".join\<close>.\<close>

definition digit_char :: "nat \<Rightarrow> char" where
  "digit_char d = ''0123456789'' ! d"

function str_nat :: "nat \<Rightarrow> string" where
  "str_nat n = (if n < 10 then [digit_char n] else str_nat (n div 10) @ [digit_char (n mod 10)])"
  by pat_completeness auto
termination
  by (relation "measure (\<lambda>n. n)") auto

definition str_int :: "int \<Rightarrow> string" where
  "str_int i = (if i < 0 then CHR ''-'' # str_nat (nat (- i)) else str_nat (nat i))"

fun join_underscore :: "string list \<Rightarrow> string" where
  "join_underscore [] = []"
| "join_underscore [x] = x"
| "join_underscore (x # y # ys) = x @ ''_'' @ join_underscore (y # ys)"

fun startswith :: "string \<Rightarrow> string \<Rightarrow> bool" where
  "startswith s [] = True"
| "startswith [] (p # ps) = False"
| "startswith (c # cs) (p # ps) = (c = p \<and> startswith cs ps)"

text \<open>
  \<^verbatim>\<open>model_name = "_".join(['sv', str(config['lambda_st']), str(config['num_samples']), mode])\<close>
  How Python prints the float \<open>lambda_st\<close> is the parameter \<open>str_float\<close>.
\<close>

definition model_name :: "(real \<Rightarrow> string) \<Rightarrow> config \<Rightarrow> string" where
  "model_name str_float cfg =
     join_underscore [''sv'', str_float (lambda_st cfg), str_int (num_samples cfg), mode cfg]"

text \<open>\<^verbatim>\<open>"_".join([model_name, f'{epoch}.pt'])\<close>, the file that an epoch saves.\<close>

definition checkpoint_name :: "string \<Rightarrow> int \<Rightarrow> string" where
  "checkpoint_name name epoch = join_underscore [name, str_int epoch @ ''.pt'']"

record ('m, 'o) checkpoint =
  epoch :: int
  model_state_dict :: 'm
  optimizer_state_dict :: 'o

text \<open>
  \<^verbatim>\<open>sorted(checkpoints)[-1]\<close>: Python orders strings lexicographically by character
  code, which is the order of \<open>string\<close> here.
\<close>

definition latest_checkpoint :: "string list \<Rightarrow> string" where
  "latest_checkpoint checkpoints = last (sort checkpoints)"

text \<open>
  The resume step, lines 293 to 303:
  \<^verbatim>\<open>
      checkpoints = [f for f in os.listdir(save_path) if f.startswith(model_name)]
      if not config['retrain'] and checkpoints:
          checkpoint_path = os.path.join(save_path, sorted(checkpoints)[-1])
          checkpoint = torch.load(checkpoint_path)
          model.load_state_dict(checkpoint['model_state_dict'])
          optimizer.load_state_dict(checkpoint['optimizer_state_dict'])
          current_epoch = checkpoint['epoch'] + 1
      else:
          model.apply(utils.weight_init)
          current_epoch = 1
  \<close>
  \<open>listing\<close> is the content of the directory \<open>save_path\<close>, \<open>load\<close> reads a file of that
  directory, \<open>weight_init\<close> is the initialisation scheme of the module \<open>utils\<close>. The
  result is the model state, the optimizer state and \<open>current_epoch\<close>.
\<close>

definition resume ::
  "(real \<Rightarrow> string) \<Rightarrow> config \<Rightarrow> string list \<Rightarrow> (string \<Rightarrow> py_error + ('m, 'o) checkpoint)
     \<Rightarrow> ('m \<Rightarrow> 'm) \<Rightarrow> 'm \<Rightarrow> 'o \<Rightarrow> py_error + ('m \<times> 'o \<times> int)" where
  "resume str_float cfg listing load weight_init model optimizer =
     (let checkpoints = filter (\<lambda>f. startswith f (model_name str_float cfg)) listing
      in if \<not> retrain cfg \<and> checkpoints \<noteq> []
         then bind_err (load (latest_checkpoint checkpoints)) (\<lambda>ck.
                Inr (model_state_dict ck, optimizer_state_dict ck, epoch ck + 1))
         else Inr (weight_init model, optimizer, 1))"

subsection \<open>The epoch loop\<close>

text \<open>
  One batch, lines 311 to 328: two forward passes of the model (two stochastic views,
  \<open>forward1\<close> and \<open>forward2\<close>), the loss, then the backward pass and the optimizer step
  (\<open>step\<close>). The encoders behind the forward pass and the optimizer are library code and
  stay parameters. A batch is the pair of \<open>data_batch\<close> and \<open>w_batch\<close>.
\<close>

definition train_batch ::
  "sinkhorn \<Rightarrow> config \<Rightarrow> ('m \<Rightarrow> int list list \<Rightarrow> py_error + matrix \<times> matrix)
     \<Rightarrow> ('m \<Rightarrow> int list list \<Rightarrow> py_error + matrix \<times> matrix)
     \<Rightarrow> ('m \<times> 'o \<Rightarrow> tval \<Rightarrow> 'm \<times> 'o) \<Rightarrow> 'm \<times> 'o \<Rightarrow> int list list \<times> pyval
     \<Rightarrow> py_error + 'm \<times> 'o" where
  "train_batch sw cfg forward1 forward2 step st batch =
     (let (data_batch, w_batch) = batch
      in bind_err (forward1 (fst st) data_batch) (\<lambda>view1.
         bind_err (forward2 (fst st) data_batch) (\<lambda>view2.
         bind_err (batch_loss sw cfg view1 view2 data_batch w_batch) (\<lambda>loss.
         Inr (step st loss)))))"

fun run_batches :: "('s \<Rightarrow> 'b \<Rightarrow> py_error + 's) \<Rightarrow> 's \<Rightarrow> 'b list \<Rightarrow> py_error + 's" where
  "run_batches f st [] = Inr st"
| "run_batches f st (b # bs) = bind_err (f st b) (\<lambda>st'. run_batches f st' bs)"

text \<open>
  The loop over the epochs, lines 309 to 337: the batches of the epoch, then
  \<open>torch.save\<close> of the checkpoint of the epoch. \<open>saved\<close> collects the files written, in
  order; \<open>batches\<close> gives the batches of an epoch (the batch indexer of \<open>utils\<close>).
\<close>

fun train_epochs ::
  "('m \<times> 'o \<Rightarrow> 'b \<Rightarrow> py_error + 'm \<times> 'o) \<Rightarrow> (int \<Rightarrow> 'b list) \<Rightarrow> string \<Rightarrow> 'm \<times> 'o \<Rightarrow> int list
     \<Rightarrow> (string \<times> ('m, 'o) checkpoint) list
     \<Rightarrow> py_error + ('m \<times> 'o) \<times> (string \<times> ('m, 'o) checkpoint) list" where
  "train_epochs f batches name st [] saved = Inr (st, saved)"
| "train_epochs f batches name st (e # es) saved =
     bind_err (run_batches f st (batches e)) (\<lambda>st'.
       train_epochs f batches name st' es
         (saved @ [(checkpoint_name name e,
                    \<lparr>epoch = e, model_state_dict = fst st', optimizer_state_dict = snd st'\<rparr>)]))"

text \<open>
  Lines 305 to 339, from the \<open>current_epoch\<close> that the resume step gives:
  \<^verbatim>\<open>
      if current_epoch < num_epochs:
          data, w_rt = utils.train_data_loader(data_path, data_files, num_nodes, config)
          for epoch in range(current_epoch, num_epochs + 1):
              ...
      return model
  \<close>
\<close>

definition train_from ::
  "config \<Rightarrow> ('m \<times> 'o \<Rightarrow> 'b \<Rightarrow> py_error + 'm \<times> 'o) \<Rightarrow> (int \<Rightarrow> 'b list) \<Rightarrow> string \<Rightarrow> 'm \<times> 'o \<Rightarrow> int
     \<Rightarrow> py_error + ('m \<times> 'o) \<times> (string \<times> ('m, 'o) checkpoint) list" where
  "train_from cfg f batches name st current_epoch =
     (if current_epoch < num_epochs cfg
      then train_epochs f batches name st [current_epoch..num_epochs cfg] []
      else Inr (st, []))"

definition train ::
  "sinkhorn \<Rightarrow> (real \<Rightarrow> string) \<Rightarrow> config \<Rightarrow> string list
     \<Rightarrow> (string \<Rightarrow> py_error + ('m, 'o) checkpoint) \<Rightarrow> ('m \<Rightarrow> 'm)
     \<Rightarrow> ('m \<Rightarrow> int list list \<Rightarrow> py_error + matrix \<times> matrix)
     \<Rightarrow> ('m \<Rightarrow> int list list \<Rightarrow> py_error + matrix \<times> matrix)
     \<Rightarrow> ('m \<times> 'o \<Rightarrow> tval \<Rightarrow> 'm \<times> 'o) \<Rightarrow> (int \<Rightarrow> (int list list \<times> pyval) list) \<Rightarrow> 'm \<Rightarrow> 'o
     \<Rightarrow> py_error + ('m \<times> 'o) \<times> (string \<times> ('m, 'o) checkpoint) list" where
  "train sw str_float cfg listing load weight_init forward1 forward2 step batches model optimizer =
     bind_err (resume str_float cfg listing load weight_init model optimizer)
       (\<lambda>(m, opt, current_epoch).
          train_from cfg (train_batch sw cfg forward1 forward2 step) batches
            (model_name str_float cfg) (m, opt) current_epoch)"

section \<open>The hyperbolic model variant\<close>

text \<open>
  An object is the dictionary of the attributes assigned to it; reading an attribute
  that was never assigned raises \<open>AttributeError\<close>.
\<close>

type_synonym edges = "(nat \<times> nat) list"

datatype attr =
    AInt nat
  | AStr string
  | AEdges edges
  | AEmbedding matrix
  | AGraphEncoder "matrix \<Rightarrow> edges \<Rightarrow> py_error + matrix"
  | ASeqEncoder "matrix \<Rightarrow> int list list \<Rightarrow> real \<Rightarrow> py_error + matrix"

type_synonym obj = "string \<rightharpoonup> attr"

definition getattr :: "obj \<Rightarrow> string \<Rightarrow> py_error + attr" where
  "getattr self name = (case self name of None \<Rightarrow> Inl AttributeError | Some v \<Rightarrow> Inr v)"

text \<open>
  \<^verbatim>\<open>
  class HyperbolicGraphEncoder(nn.Module):
      def __init__(self, input_size, output_size, encoder_layer, num_layers):
          ...
          for _ in range(num_layers):
              self.layers.append(encoder_layer(input_size, output_size))
      def forward(self, x, edge_index):
          for layer in self.layers:
              x = self.ball.expmap0(layer(self.ball.logmap0(x), edge_index))
          return x
  \<close>
  The maps of the Poincare ball and the convolution layers are library code: \<open>expmap0\<close>,
  \<open>logmap0\<close> and \<open>encoder_layer\<close> (the layer built for two sizes, the third argument
  telling the layers apart) are parameters; a layer may raise.
\<close>

type_synonym layer = "matrix \<Rightarrow> edges \<Rightarrow> py_error + matrix"

fun hyperbolic_forward ::
  "(matrix \<Rightarrow> matrix) \<Rightarrow> (matrix \<Rightarrow> matrix) \<Rightarrow> layer list \<Rightarrow> matrix \<Rightarrow> edges \<Rightarrow> py_error + matrix" where
  "hyperbolic_forward expmap0 logmap0 [] x edge_index = Inr x"
| "hyperbolic_forward expmap0 logmap0 (l # ls) x edge_index =
     bind_err (l (logmap0 x) edge_index) (\<lambda>y.
       hyperbolic_forward expmap0 logmap0 ls (expmap0 y) edge_index)"

definition HyperbolicGraphEncoder ::
  "(matrix \<Rightarrow> matrix) \<Rightarrow> (matrix \<Rightarrow> matrix) \<Rightarrow> nat \<Rightarrow> nat \<Rightarrow> (nat \<Rightarrow> nat \<Rightarrow> nat \<Rightarrow> layer) \<Rightarrow> nat
     \<Rightarrow> matrix \<Rightarrow> edges \<Rightarrow> py_error + matrix" where
  "HyperbolicGraphEncoder expmap0 logmap0 input_size output_size encoder_layer num_layers =
     hyperbolic_forward expmap0 logmap0
       (map (encoder_layer input_size output_size) [0..<num_layers])"

text \<open>
  \<^verbatim>\<open>
  class UpdatedSingleViewModel(nn.Module):
      def __init__(self, vocab_size, embed_size, hidden_size, edge_index, seq_encoder, mode='p'):
          super(UpdatedSingleViewModel, self).__init__()
          self.vocab_size = vocab_size
          self.edge_index = edge_index
          self.node_embedding = nn.Embedding(vocab_size, embed_size)
          self.graph_encoder = HyperbolicGraphEncoder(embed_size, hidden_size, GATConv, 2)
          self.seq_encoder = seq_encoder
          self.mode = mode
  \<close>
  \<open>weight\<close> is the table that \<open>nn.Embedding\<close> draws, \<open>gat_conv\<close> the layer constructor.
\<close>

definition UpdatedSingleViewModel_init ::
  "(matrix \<Rightarrow> matrix) \<Rightarrow> (matrix \<Rightarrow> matrix) \<Rightarrow> (nat \<Rightarrow> nat \<Rightarrow> nat \<Rightarrow> layer) \<Rightarrow> matrix
     \<Rightarrow> nat \<Rightarrow> nat \<Rightarrow> nat \<Rightarrow> edges \<Rightarrow> (matrix \<Rightarrow> int list list \<Rightarrow> real \<Rightarrow> py_error + matrix)
     \<Rightarrow> string \<Rightarrow> obj" where
  "UpdatedSingleViewModel_init expmap0 logmap0 gat_conv weight
       vocab_size embed_size hidden_size edge_index seq_encoder mode' =
     [''vocab_size'' \<mapsto> AInt vocab_size,
      ''edge_index'' \<mapsto> AEdges edge_index,
      ''node_embedding'' \<mapsto> AEmbedding weight,
      ''graph_encoder'' \<mapsto>
         AGraphEncoder (HyperbolicGraphEncoder expmap0 logmap0 embed_size hidden_size gat_conv 2),
      ''seq_encoder'' \<mapsto> ASeqEncoder seq_encoder,
      ''mode'' \<mapsto> AStr mode']"

text \<open>
  \<^verbatim>\<open>
      def encode_graph(self, drop_rate=0.0):
          node_emb = self.node_embedding.weight
          edge_index = dropout_adj(self.edge_index, p=drop_rate)[0]
          node_enc = self.graph_encoder(node_emb, edge_index)
          return node_enc
  \<close>
  \<open>dropout_adj\<close>, the random choice of the edges that stay, is a parameter.
\<close>

definition encode_graph :: "(edges \<Rightarrow> real \<Rightarrow> edges) \<Rightarrow> obj \<Rightarrow> real \<Rightarrow> py_error + matrix" where
  "encode_graph dropout_adj self drop_rate =
     bind_err (getattr self ''node_embedding'') (\<lambda>emb.
     bind_err (getattr self ''edge_index'') (\<lambda>ei.
     bind_err (getattr self ''graph_encoder'') (\<lambda>enc.
       case (emb, ei, enc) of
         (AEmbedding node_emb, AEdges e, AGraphEncoder g) \<Rightarrow> g node_emb (dropout_adj e drop_rate)
       | _ \<Rightarrow> Inl TypeError)))"

text \<open>
  \<^verbatim>\<open>
      def encode_sequence(self, sequences, drop_rate=0.):
          if self.mode == 'p':
              lookup_table = torch.cat([self.node_embedding.weight, self.padding], 0)
          else:
              node_enc = self.encode_graph()
              lookup_table = torch.cat([node_enc, self.padding], 0)
          batch_size, max_seq_len = sequences.size()
          ... (masking, lookup, sequence encoder, pooling)
          return seq_pooled
  \<close>
  The elements of the list given to \<open>torch.cat\<close> are evaluated from left to right. The
  lines after the lookup table (random masking, the transformer encoder, the pooling)
  are the attribute \<open>seq_encoder\<close> applied to the table, the sequences and the drop rate.
\<close>

definition encode_sequence ::
  "(edges \<Rightarrow> real \<Rightarrow> edges) \<Rightarrow> obj \<Rightarrow> int list list \<Rightarrow> real \<Rightarrow> py_error + matrix" where
  "encode_sequence dropout_adj self sequences drop_rate =
     bind_err (getattr self ''mode'') (\<lambda>m.
     bind_err
       (if m = AStr ''p''
        then bind_err (getattr self ''node_embedding'') (\<lambda>emb.
             bind_err (getattr self ''padding'') (\<lambda>pad.
               case (emb, pad) of
                 (AEmbedding w, AEmbedding p) \<Rightarrow> Inr (w @ p)
               | _ \<Rightarrow> Inl TypeError))
        else bind_err (encode_graph dropout_adj self 0) (\<lambda>node_enc.
             bind_err (getattr self ''padding'') (\<lambda>pad.
               case pad of
                 AEmbedding p \<Rightarrow> Inr (node_enc @ p)
               | _ \<Rightarrow> Inl TypeError)))
       (\<lambda>lookup_table.
     bind_err (getattr self ''seq_encoder'') (\<lambda>enc.
       case enc of
         ASeqEncoder f \<Rightarrow> f lookup_table sequences drop_rate
       | _ \<Rightarrow> Inl TypeError)))"

text \<open>
  \<^verbatim>\<open>
      def forward(self, sequences, drop_edge_rate=0.0, drop_road_rate=0.0):
          node_rep = self.encode_graph(drop_edge_rate)
          seq_rep = self.encode_sequence(sequences, drop_road_rate)
          return node_rep, seq_rep
  \<close>
\<close>

definition forward ::
  "(edges \<Rightarrow> real \<Rightarrow> edges) \<Rightarrow> obj \<Rightarrow> int list list \<Rightarrow> real \<Rightarrow> real
     \<Rightarrow> py_error + matrix \<times> matrix" where
  "forward dropout_adj self sequences drop_edge_rate drop_road_rate =
     bind_err (encode_graph dropout_adj self drop_edge_rate) (\<lambda>node_rep.
     bind_err (encode_sequence dropout_adj self sequences drop_road_rate) (\<lambda>seq_rep.
     Inr (node_rep, seq_rep)))"

section \<open>Example inputs\<close>

text \<open>
  A configuration, the files that epochs 1 to 10 of a run with it leave in \<open>save_path\<close>
  (the checkpoint of epoch \<open>e\<close> holds \<open>e\<close> as its states), a directory read through
  its list of files, and a convolution layer that returns its input.
\<close>

definition example_config :: config where
  "example_config = \<lparr>num_epochs = 20, loss_measure = ''jsd'', weighted_loss = False,
     mode = ''p'', lambda_st = 0.5, num_samples = 1000, retrain = False\<rparr>"

definition example_str_float :: "real \<Rightarrow> string" where
  "example_str_float x = ''0.5''"

definition load_from :: "(string \<times> ('m, 'o) checkpoint) list \<Rightarrow> string \<Rightarrow> py_error + ('m, 'o) checkpoint" where
  "load_from files f = (case map_of files f of None \<Rightarrow> Inl LoadError | Some ck \<Rightarrow> Inr ck)"

definition example_files :: "(string \<times> (int, int) checkpoint) list" where
  "example_files =
     map (\<lambda>e. (checkpoint_name ''sv_0.5_1000_p'' e,
               \<lparr>epoch = e, model_state_dict = e, optimizer_state_dict = e\<rparr>))
       [1, 2, 3, 4, 5, 6, 7, 8, 9, 10]"

definition example_layer :: "nat \<Rightarrow> nat \<Rightarrow> nat \<Rightarrow> layer" where
  "example_layer input_size output_size k x edge_index = Inr x"

text \<open>
  A layer that keeps the size contract of a convolution layer built for
  \<open>(input_size, output_size)\<close>: it raises on an input whose rows are not of width
  \<open>input_size\<close> (the weight matrix cannot be multiplied) and returns rows of width
  \<open>output_size\<close>.
\<close>

definition sized_layer :: "nat \<Rightarrow> nat \<Rightarrow> nat \<Rightarrow> layer" where
  "sized_layer input_size output_size k x edge_index =
     (if list_all (\<lambda>row. length row = input_size) x
      then Inr (map (\<lambda>row. replicate output_size 0) x)
      else Inl RuntimeError)"

section \<open>Properties of the losses\<close>

lemma bind_err_simps [simp]:
  "bind_err (Inl e) f = Inl e" "bind_err (Inr v) f = f v"
  by (simp_all add: bind_err_def)

lemma mat_sum_scalar: "mat_sum (scalar_times_mask c m) = c * mat_sum m"
proof -
  have row: "sum_list (map (\<lambda>w. c * w) r) = c * sum_list r" for r :: "real list"
    by (induction r) (simp_all add: distrib_left)
  show ?thesis
    unfolding mat_sum_def scalar_times_mask_def
    by (induction m) (simp_all add: row distrib_left)
qed

lemma set_tokens_marks:
  "\<forall>t\<in>set ts. 0 \<le> t \<and> t < int (length mrow) \<Longrightarrow>
   set_tokens mrow ts = Inr (map (\<lambda>j. if int j \<in> set ts then 1 else mrow ! j) [0..<length mrow])"
proof (induction ts arbitrary: mrow)
  case Nil
  then show ?case by (simp add: map_nth)
next
  case (Cons t ts)
  have t: "0 \<le> t" "t < int (length mrow)" using Cons.prems by auto
  have rest: "\<forall>u\<in>set ts. 0 \<le> u \<and> u < int (length (mrow[nat t := 1]))"
    using Cons.prems by auto
  have "set_tokens (mrow[nat t := 1]) ts =
      Inr (map (\<lambda>j. if int j \<in> set ts then 1 else mrow[nat t := 1] ! j) [0..<length (mrow[nat t := 1])])"
    by (rule Cons.IH [OF rest])
  moreover have "map (\<lambda>j. if int j \<in> set ts then 1 else mrow[nat t := 1] ! j) [0..<length mrow]
     = map (\<lambda>j. if int j \<in> set (t # ts) then 1 else mrow ! j) [0..<length mrow]"
    using t by (auto simp: nth_list_update)
  ultimately show ?case using t by (simp add: Let_def)
qed

lemma set_tokens_zero:
  assumes "\<forall>t\<in>set ts. 0 \<le> t \<and> t < int w"
  shows "set_tokens (replicate w 0) ts = Inr (token_marks w ts)"
  using set_tokens_marks [of ts "replicate w 0"] assms
  by (simp add: token_marks_def cong: map_cong)

lemma mark_rows_zero:
  "\<forall>row\<in>set seqs. \<forall>t\<in>set row. 0 \<le> t \<and> t < int w \<Longrightarrow>
   mark_rows (pre @ replicate (length seqs) (replicate w 0)) (length pre) seqs
     = Inr (pre @ map (token_marks w) seqs)"
proof (induction seqs arbitrary: pre)
  case Nil
  then show ?case by simp
next
  case (Cons row rest)
  have r: "set_tokens (replicate w 0) row = Inr (token_marks w row)"
    using Cons.prems by (intro set_tokens_zero) auto
  have upd: "(pre @ replicate (length (row # rest)) (replicate w 0))[length pre := token_marks w row]
      = (pre @ [token_marks w row]) @ replicate (length rest) (replicate w 0)"
    by (simp add: list_update_append)
  have "mark_rows ((pre @ [token_marks w row]) @ replicate (length rest) (replicate w 0))
          (length (pre @ [token_marks w row])) rest = Inr ((pre @ [token_marks w row]) @ map (token_marks w) rest)"
    using Cons.prems by (intro Cons.IH) auto
  then show ?case using r upd by (simp add: nth_append)
qed

lemma full_pos_mask_marks:
  assumes "length seqs = b" "\<forall>row\<in>set seqs. \<forall>t\<in>set row. 0 \<le> t \<and> t \<le> int v"
  shows "full_pos_mask b v seqs = Inr (map (token_marks (Suc v)) seqs)"
proof -
  have "\<forall>row\<in>set seqs. \<forall>t\<in>set row. 0 \<le> t \<and> t < int (Suc v)" using assms(2) by fastforce
  from mark_rows_zero [OF this, of "[]"] show ?thesis
    using assms(1) by (simp add: full_pos_mask_def zeros_def)
qed

lemma butlast_marks: "butlast (token_marks (Suc v) row) = token_marks v row"
  by (simp add: token_marks_def butlast_conv_take take_map)

lemma bcast_same_length: "length xs = length ys \<Longrightarrow> bcast xs ys = Inr (zip xs ys)"
  by (simp add: bcast_def)

lemma sequence_err_all_Inr:
  "\<forall>x\<in>set xs. g x = Inr (f x) \<Longrightarrow> sequence_err (map g xs) = Inr (map f xs)"
  by (induction xs) simp_all

lemma row_norm_nonneg: "0 \<le> row_norm v"
  unfolding row_norm_def by (intro real_sqrt_ge_zero sum_list_nonneg) auto

lemma row_norm_sq_less_1: "row_norm v < 1 \<Longrightarrow> (row_norm v)\<^sup>2 < 1"
  using row_norm_nonneg [of v] by (simp add: abs_square_less_1)

lemma sub_mat_same_shape:
  assumes "list_all2 (\<lambda>r1 r2. length r1 = length r2) a b"
  shows "sub_mat a b = Inr (map (\<lambda>(r1, r2). map2 (-) r1 r2) (zip a b))"
proof -
  have len: "length a = length b" using assms by (rule list_all2_lengthD)
  have rows: "\<forall>p\<in>set (zip a b). (\<lambda>(r1, r2). sub_row r1 r2) p = Inr ((\<lambda>(r1, r2). map2 (-) r1 r2) p)"
    using assms by (auto simp: list_all2_iff sub_row_def bcast_same_length)
  show ?thesis
    unfolding sub_mat_def using len sequence_err_all_Inr [OF rows]
    by (simp add: bcast_same_length)
qed

lemma entry_in_ball:
  assumes "row_norm x < 1" "row_norm y < 1"
  shows "tacosh (tadd (Fin 1) (tdiv (tdiv (Fin (2 * n\<^sup>2)) (1 - (row_norm x)\<^sup>2)) (1 - (row_norm y)\<^sup>2)))
       = Fin (arcosh (1 + 2 * n\<^sup>2 / ((1 - (row_norm x)\<^sup>2) * (1 - (row_norm y)\<^sup>2))))"
proof -
  define p where "p = 1 - (row_norm x)\<^sup>2"
  define q where "q = 1 - (row_norm y)\<^sup>2"
  have px: "0 < p" using row_norm_sq_less_1 [OF assms(1)] by (simp add: p_def)
  have py: "0 < q" using row_norm_sq_less_1 [OF assms(2)] by (simp add: q_def)
  have ge: "0 \<le> 2 * n\<^sup>2 / (p * q)"
    using px py by (intro divide_nonneg_pos mult_pos_pos) auto
  have "tdiv (tdiv (Fin (2 * n\<^sup>2)) p) q = Fin (2 * n\<^sup>2 / (p * q))"
    using px py by (simp add: divide_divide_eq_left)
  then have "tacosh (tadd (Fin 1) (tdiv (tdiv (Fin (2 * n\<^sup>2)) p) q))
      = Fin (arcosh (1 + 2 * n\<^sup>2 / (p * q)))"
    using ge by simp
  then show ?thesis by (simp only: p_def q_def)
qed

lemma hyperbolic_distance_paired:
  assumes shape: "list_all2 (\<lambda>r1 r2. length r1 = length r2) a b"
    and ball: "\<forall>r\<in>set a. row_norm r < 1" "\<forall>r\<in>set b. row_norm r < 1"
  shows "hyperbolic_distance a b = Inr (map (\<lambda>(x, y). Fin (poincare_distance x y)) (zip a b))"
proof -
  have len: "length a = length b" using shape by (rule list_all2_lengthD)
  let ?d = "map (\<lambda>(r1, r2). map2 (-) r1 r2) (zip a b)"
  let ?p = "zip (map (\<lambda>n. 2 * n\<^sup>2) (norm_dim1 ?d)) (map (\<lambda>n. 1 - n\<^sup>2) (norm_dim1 a))"
  let ?q = "zip (map (\<lambda>(x, a). tdiv (Fin x) a) ?p) (map (\<lambda>n. 1 - n\<^sup>2) (norm_dim1 b))"
  have unfolded: "hyperbolic_distance a b = Inr (map (\<lambda>(y, b). tacosh (tadd (Fin 1) (tdiv y b))) ?q)"
    unfolding hyperbolic_distance_def sub_mat_same_shape [OF shape]
    using len by (simp add: bcast_same_length norm_dim1_def comp_assoc del: tdiv.simps tadd.simps tacosh.simps)
  have "map (\<lambda>(y, b). tacosh (tadd (Fin 1) (tdiv y b))) ?q
      = map (\<lambda>(x, y). Fin (poincare_distance x y)) (zip a b)"
  proof (rule nth_equalityI)
    show "length (map (\<lambda>(y, b). tacosh (tadd (Fin 1) (tdiv y b))) ?q)
        = length (map (\<lambda>(x, y). Fin (poincare_distance x y)) (zip a b))"
      using len by (simp add: norm_dim1_def)
  next
    fix i assume "i < length (map (\<lambda>(y, b). tacosh (tadd (Fin 1) (tdiv y b))) ?q)"
    then have i: "i < length a" "i < length b" using len by (simp_all add: norm_dim1_def)
    have "row_norm (a ! i) < 1" "row_norm (b ! i) < 1" using ball i by auto
    from entry_in_ball [OF this] show "map (\<lambda>(y, b). tacosh (tadd (Fin 1) (tdiv y b))) ?q ! i
        = map (\<lambda>(x, y). Fin (poincare_distance x y)) (zip a b) ! i"
      using i len by (simp add: norm_dim1_def poincare_distance_def del: tdiv.simps tadd.simps tacosh.simps)
  qed
  with unfolded show ?thesis by simp
qed

lemma sum_list_concat_rows: "sum_list (concat m) = sum_list (map sum_list m)" for m :: matrix
  by (induction m) simp_all

lemma mat_sum_eye: "mat_sum (eye n) = real n"
proof -
  have row: "sum_list (map (\<lambda>j. if i = j then 1 else 0) [0..<n]) = (1::real)" if "i < n" for i
    using that by (simp add: interv_sum_list_conv_sum_set_nat)
  have "mat_sum (eye n) = sum_list (map (\<lambda>i. sum_list (map (\<lambda>j. if i = j then 1 else 0) [0..<n])) [0..<n])"
    by (simp add: mat_sum_def eye_def sum_list_concat_rows comp_def)
  also have "\<dots> = sum_list (map (\<lambda>i. 1) [0..<n])"
    by (rule arg_cong [where f = sum_list], rule map_cong) (simp_all add: row)
  also have "\<dots> = real n" by (simp add: sum_list_triv)
  finally show ?thesis .
qed

lemma eye_row_length: "row \<in> set (eye n) \<Longrightarrow> length row = n"
  by (auto simp: eye_def)

lemma tsum_all_zero: "\<forall>x\<in>set xs. x = Fin 0 \<Longrightarrow> tsum xs = Fin 0"
  by (induction xs) (simp_all add: tsum_def)

lemma poincare_distance_self: "row_norm x < 1 \<Longrightarrow> poincare_distance x x = 0"
proof -
  have "map2 (-) x x = map (\<lambda>_. 0) x" by (induction x) simp_all
  then have "row_norm (map2 (-) x x) = 0" by (simp add: row_norm_def comp_def)
  then show ?thesis by (simp add: poincare_distance_def)
qed

lemma hyperbolic_distance_self:
  assumes "\<forall>row\<in>set r. row_norm row < 1"
  shows "hyperbolic_distance r r = Inr (map (\<lambda>_. Fin 0) r)"
proof -
  have "list_all2 (\<lambda>r1 r2. length r1 = length r2) r r" by (simp add: list_all2_same)
  from hyperbolic_distance_paired [OF this assms assms]
  have "hyperbolic_distance r r = Inr (map (\<lambda>(x, y). Fin (poincare_distance x y)) (zip r r))" .
  also have "map (\<lambda>(x, y). Fin (poincare_distance x y)) (zip r r) = map (\<lambda>_. Fin 0) r"
    using assms by (induction r) (simp_all add: poincare_distance_self)
  finally show ?thesis .
qed

lemma vec_times_mask_zero:
  assumes "\<forall>row\<in>set m. length row = n"
  shows "vec_times_mask (replicate n (Fin 0)) m = Inr (map (map (\<lambda>_. Fin 0)) m)"
proof -
  have "\<forall>row\<in>set m. bind_err (bcast (replicate n (Fin 0)) row) (\<lambda>ps. Inr (map (\<lambda>(x, w). tmul x w) ps))
      = Inr (map (\<lambda>_. Fin 0) row)"
  proof
    fix row assume "row \<in> set m"
    then have len: "length row = n" using assms by simp
    have "map (\<lambda>(x, w). tmul x w) (zip (replicate (length row) (Fin 0)) row) = map (\<lambda>_. Fin 0) row"
      by (induction row) simp_all
    then have "map (\<lambda>(x, w). tmul x w) (zip (replicate n (Fin 0)) row) = map (\<lambda>_. Fin 0) row"
      using len by simp
    then show "bind_err (bcast (replicate n (Fin 0)) row) (\<lambda>ps. Inr (map (\<lambda>(x, w). tmul x w) ps))
      = Inr (map (\<lambda>_. Fin 0) row)"
      using len by (simp add: bcast_same_length)
  qed
  then show ?thesis unfolding vec_times_mask_def by (rule sequence_err_all_Inr)
qed

lemma node_node_loss_self:
  assumes "r \<noteq> []" "\<forall>row\<in>set r. row_norm row < 1"
  shows "node_node_loss r r = Inr (Fin 0)"
proof -
  have d: "hyperbolic_distance r r = Inr (replicate (length r) (Fin 0))"
    using hyperbolic_distance_self [OF assms(2)] by (simp add: map_replicate_const)
  have m: "vec_times_mask (replicate (length r) (Fin 0)) (eye (length r))
      = Inr (map (map (\<lambda>_. Fin 0)) (eye (length r)))"
    by (rule vec_times_mask_zero) (simp add: eye_row_length)
  have s: "tsum (concat (map (map (\<lambda>_. Fin 0)) (eye (length r)))) = Fin 0"
    by (rule tsum_all_zero) auto
  show ?thesis
    using assms(1) by (simp add: node_node_loss_def d m s mat_sum_eye)
qed

lemma node_node_loss_empty: "node_node_loss [] [] = Inr NonFin"
  by (simp add: node_node_loss_def hyperbolic_distance_def sub_mat_def bcast_def norm_dim1_def
      vec_times_mask_def eye_def tsum_def mat_sum_def)

lemma weighted_const:
  assumes "0 < mat_sum w"
  shows "weighted_ns_loss sw n s w = Inr (Fin (sliced_wasserstein_distance sw s n))"
  using assms by (simp add: weighted_ns_loss_def mat_sum_scalar)

lemma weighted_zero:
  assumes "mat_sum w = 0"
  shows "weighted_ns_loss sw n s w = Inr NonFin"
  using assms by (simp add: weighted_ns_loss_def mat_sum_scalar)

text \<open>
  Claim C6. For two batches of equal shape whose rows all have norm below 1,
  \<open>hyperbolic_distance\<close> returns a 1-D tensor with one entry per row index: entry \<open>i\<close>
  is \<open>acosh (1 + 2 * ||a_i - b_i||^2 / ((1 - ||a_i||^2) * (1 - ||b_i||^2)))\<close>, computed from
  the rows of index \<open>i\<close> alone.
\<close>

theorem C6_hyperbolic_distance_elementwise:
  assumes "list_all2 (\<lambda>r1 r2. length r1 = length r2) a b"
    and "\<forall>r\<in>set a. row_norm r < 1" and "\<forall>r\<in>set b. row_norm r < 1"
  shows "hyperbolic_distance a b
       = Inr (map (\<lambda>i. Fin (poincare_distance (a ! i) (b ! i))) [0..<length a])"
proof -
  have len: "length a = length b" using assms(1) by (rule list_all2_lengthD)
  have "map (\<lambda>(x, y). Fin (poincare_distance x y)) (zip a b)
      = map (\<lambda>i. Fin (poincare_distance (a ! i) (b ! i))) [0..<length a]"
    using len by (intro nth_equalityI) simp_all
  with hyperbolic_distance_paired [OF assms] show ?thesis by simp
qed

theorem C6_witness:
  "row_norm [1 / 2, 0] < 1 \<and> row_norm [0, 0] < 1 \<and>
   hyperbolic_distance [[1 / 2, 0]] [[0, 0]] = Inr [Fin (poincare_distance [1 / 2, 0] [0, 0])]"
proof -
  have a: "row_norm [1 / 2, 0] < 1" by (simp add: row_norm_def power2_eq_square)
  have b: "row_norm [0, 0] < 1" by (simp add: row_norm_def)
  have "hyperbolic_distance [[1 / 2, 0]] [[0, 0]]
      = Inr (map (\<lambda>i. Fin (poincare_distance ([[1 / 2, 0]] ! i) ([[0, 0]] ! i))) [0..<length [[1 / 2, 0 :: real]]])"
    using a b by (intro C6_hyperbolic_distance_elementwise) simp_all
  then show ?thesis using a b by simp
qed

text \<open>
  Claim C7, as amended. For a representation \<open>r\<close> with at least one row, all rows
  strictly inside the unit ball, \<open>node_node_loss r r\<close> is 0. (With no row at all the
  identity mask sums to zero and the quotient is \<open>nan\<close>: see the counterexample.)
\<close>

theorem C7_node_node_loss_self:
  assumes "r \<noteq> []" and "\<forall>row\<in>set r. row_norm row < 1"
  shows "node_node_loss r r = Inr (Fin 0)"
  using assms by (rule node_node_loss_self)

theorem C7_counterexample:
  "\<not> (\<forall>r. (\<forall>row\<in>set r. row_norm row < 1) \<longrightarrow> node_node_loss r r = Inr (Fin 0))"
proof
  assume "\<forall>r. (\<forall>row\<in>set r. row_norm row < 1) \<longrightarrow> node_node_loss r r = Inr (Fin 0)"
  then have "node_node_loss [] [] = Inr (Fin 0)" by simp
  then show False by (simp add: node_node_loss_empty)
qed

theorem C7_witness:
  "row_norm [1 / 2, 0] < 1 \<and> row_norm [0, 0] < 1 \<and>
   node_node_loss [[1 / 2, 0], [0, 0]] [[1 / 2, 0], [0, 0]] = Inr (Fin 0)"
proof -
  have a: "row_norm [1 / 2, 0] < 1" by (simp add: row_norm_def power2_eq_square)
  have b: "row_norm [0, 0] < 1" by (simp add: row_norm_def)
  have "node_node_loss [[1 / 2, 0], [0, 0]] [[1 / 2, 0], [0, 0]] = Inr (Fin 0)"
    using a b by (intro C7_node_node_loss_self) simp_all
  then show ?thesis using a b by simp
qed

text \<open>
  Claim C9. For two weight matrices with strictly positive sum, \<open>weighted_ns_loss\<close>
  gives the same value, and that value is \<open>sliced_wasserstein_distance seq_rep node_rep\<close>:
  the scalar cost times the weights, summed, divided by the sum of the weights.
\<close>

theorem C9_weighted_ns_loss_ignores_weights:
  assumes "0 < mat_sum w1" and "0 < mat_sum w2"
  shows "weighted_ns_loss sw node_rep seq_rep w1 = weighted_ns_loss sw node_rep seq_rep w2 \<and>
         weighted_ns_loss sw node_rep seq_rep w1
           = Inr (Fin (sliced_wasserstein_distance sw seq_rep node_rep))"
  using assms by (simp add: weighted_const)

theorem C9_witness:
  "0 < mat_sum [[1, 2]] \<and> 0 < mat_sum [[3], [0]] \<and>
   weighted_ns_loss (\<lambda>a b. 7) [[0]] [[1]] [[1, 2]] = weighted_ns_loss (\<lambda>a b. 7) [[0]] [[1]] [[3], [0]] \<and>
   weighted_ns_loss (\<lambda>a b. 7) [[0]] [[1]] [[1, 2]]
     = Inr (Fin (sliced_wasserstein_distance (\<lambda>a b. 7) [[1]] [[0]]))"
proof -
  have a: "0 < mat_sum [[1, 2]]" by (simp add: mat_sum_def)
  have b: "0 < mat_sum [[3], [0]]" by (simp add: mat_sum_def)
  from C9_weighted_ns_loss_ignores_weights [OF a b, of "\<lambda>a b. 7" "[[0]]" "[[1]]"] a b
  show ?thesis by blast
qed

text \<open>
  Claim C8. The positive mask of \<open>node_seq_loss\<close>: a zero matrix of \<open>batch_size\<close> rows
  and \<open>num_nodes + 1\<close> columns in which entry \<open>(i, t)\<close> becomes 1 for every token \<open>t\<close> of
  sequence \<open>i\<close>; the last column is then sliced off, and the loss uses the sliced mask.
  For the sequences \<open>[[0,1],[1,2]]\<close> with 3 nodes the mask before slicing is
  \<open>[[1,1,0,0],[0,1,1,0]]\<close>.
\<close>

theorem C8_node_seq_mask:
  assumes "length sequences = length seq_rep"
    and "\<forall>row\<in>set sequences. \<forall>t\<in>set row. 0 \<le> t \<and> t \<le> int (length node_rep)"
  shows "full_pos_mask (length seq_rep) (length node_rep) sequences
           = Inr (map (token_marks (length node_rep + 1)) sequences) \<and>
         drop_last_column (map (token_marks (length node_rep + 1)) sequences)
           = map (token_marks (length node_rep)) sequences \<and>
         node_seq_loss sw node_rep seq_rep sequences
           = bind_err (hyperbolic_distance seq_rep node_rep) (\<lambda>d.
               Inr (tadd (tdiv (Fin (mat_sum (scalar_times_mask
                                 (sliced_wasserstein_distance sw seq_rep node_rep)
                                 (map (token_marks (length node_rep)) sequences))))
                            (mat_sum (map (token_marks (length node_rep)) sequences)))
                      (tmean d))) \<and>
         full_pos_mask 2 3 [[0, 1], [1, 2]] = Inr [[1, 1, 0, 0], [0, 1, 1, 0]] \<and>
         drop_last_column [[1, 1, 0, 0], [0, 1, 1, 0]] = [[1, 1, 0], [0, 1, 1]]"
proof -
  have full: "full_pos_mask (length seq_rep) (length node_rep) sequences
           = Inr (map (token_marks (length node_rep + 1)) sequences)"
    using full_pos_mask_marks [OF assms] by simp
  have sliced: "drop_last_column (map (token_marks (length node_rep + 1)) sequences)
           = map (token_marks (length node_rep)) sequences"
    by (simp add: drop_last_column_def butlast_marks)
  have loss: "node_seq_loss sw node_rep seq_rep sequences
           = bind_err (hyperbolic_distance seq_rep node_rep) (\<lambda>d.
               Inr (tadd (tdiv (Fin (mat_sum (scalar_times_mask
                                 (sliced_wasserstein_distance sw seq_rep node_rep)
                                 (map (token_marks (length node_rep)) sequences))))
                            (mat_sum (map (token_marks (length node_rep)) sequences)))
                      (tmean d)))"
    unfolding node_seq_loss_def Let_def full bind_err_simps sliced ..
  have ex: "full_pos_mask 2 3 [[0, 1], [1, 2]] = Inr [[1, 1, 0, 0], [0, 1, 1, 0]]"
    by (simp add: full_pos_mask_def zeros_def numeral_2_eq_2 numeral_3_eq_3 Let_def)
  have ex2: "drop_last_column [[1, 1, 0, 0], [0, 1, 1, 0]] = [[1, 1, 0], [0, 1, 1::real]]"
    by (simp add: drop_last_column_def)
  from full sliced loss ex ex2 show ?thesis by blast
qed

theorem C8_witness:
  "full_pos_mask 2 3 [[0, 1], [1, 2]] = Inr (map (token_marks 4) [[0, 1], [1, 2]]) \<and>
   drop_last_column (map (token_marks 4) [[0, 1], [1, 2]]) = map (token_marks 3) [[0, 1], [1, 2]]"
proof -
  have l2: "length [[0], [0::real]] = 2" and l3: "length [[0], [0], [0::real]] = 3"
    and l4: "(3::nat) + 1 = 4" by simp_all
  have h1: "length [[0, 1], [1, 2::int]] = length [[0], [0::real]]" by simp
  have h2: "\<forall>row\<in>set [[0, 1], [1, 2::int]]. \<forall>t\<in>set row. 0 \<le> t \<and> t \<le> int (length [[0], [0], [0::real]])"
    by simp
  from C8_node_seq_mask [OF h1 h2, of "\<lambda>a b. 0"] show ?thesis
    unfolding l2 l3 l4 by blast
qed

section \<open>Properties of the training loop and of the model\<close>

lemma call_arity3:
  "call_node_node_loss [a, b, c] = Inl TypeError"
  "call_seq_seq_loss sw [a, b, c] = Inl TypeError"
  by (simp_all add: call_node_node_loss_def call_seq_seq_loss_def)

lemma call_arity4:
  "call_weighted_ns_loss sw [a, b, c, d] = Inl TypeError"
  "call_node_seq_loss sw [a, b, c, d] = Inl TypeError"
  by (simp_all add: call_weighted_ns_loss_def call_node_seq_loss_def)

text \<open>
  Claim C1 (the code departs from it). Each loss function is called with one argument
  more than its definition takes (\<open>measure\<close>), so the first call of every batch,
  \<open>node_node_loss(node_rep1, node_rep2, measure)\<close>, raises \<open>TypeError\<close>: the loss of a
  batch never evaluates to a value, whatever the views, the batch and the configuration;
  the calls of the three other loss functions raise the same error.
\<close>

theorem C1_batch_loss_raises:
  "batch_loss sw cfg view1 view2 data_batch w_batch = Inl TypeError \<and>
   call_node_node_loss [TensorV n1, TensorV n2, StrV m] = Inl TypeError \<and>
   call_seq_seq_loss sw [TensorV s1, TensorV s2, StrV m] = Inl TypeError \<and>
   call_weighted_ns_loss sw [TensorV n1, TensorV s2, w_batch, StrV m] = Inl TypeError \<and>
   call_node_seq_loss sw [TensorV n1, TensorV s2, TokensV data_batch, StrV m] = Inl TypeError"
  by (simp add: batch_loss_def call_arity3 call_arity4 split: prod.splits)

lemma str_nat_digit: "n < 10 \<Longrightarrow> str_nat n = [digit_char n]"
  by (subst str_nat.simps) simp

lemma str_nat_10: "str_nat 10 = ''10''"
  by (subst str_nat.simps) (simp add: str_nat_digit digit_char_def)

lemma str_nat_1000: "str_nat 1000 = ''1000''"
  by (subst str_nat.simps, subst str_nat.simps, subst str_nat.simps)
     (simp add: str_nat_digit digit_char_def)

lemma example_model_name: "model_name example_str_float example_config = ''sv_0.5_1000_p''"
  by (simp add: model_name_def example_config_def example_str_float_def str_int_def str_nat_1000 digit_char_def)

lemma example_listing:
  "map fst example_files =
     [''sv_0.5_1000_p_1.pt'', ''sv_0.5_1000_p_2.pt'', ''sv_0.5_1000_p_3.pt'',
      ''sv_0.5_1000_p_4.pt'', ''sv_0.5_1000_p_5.pt'', ''sv_0.5_1000_p_6.pt'',
      ''sv_0.5_1000_p_7.pt'', ''sv_0.5_1000_p_8.pt'', ''sv_0.5_1000_p_9.pt'',
      ''sv_0.5_1000_p_10.pt'']"
  by (simp add: example_files_def checkpoint_name_def str_int_def str_nat_digit str_nat_10
      digit_char_def)

lemma example_latest: "latest_checkpoint (map fst example_files) = ''sv_0.5_1000_p_9.pt''"
  unfolding example_listing by (simp add: latest_checkpoint_def)

lemma example_filter:
  "filter (\<lambda>f. startswith f ''sv_0.5_1000_p'') (map fst example_files) = map fst example_files"
  unfolding example_listing by simp

lemma example_load:
  "load_from example_files ''sv_0.5_1000_p_9.pt''
     = Inr \<lparr>epoch = 9, model_state_dict = 9, optimizer_state_dict = 9\<rparr>"
  by (simp add: load_from_def example_files_def checkpoint_name_def str_int_def str_nat_digit
      str_nat_10 digit_char_def)

text \<open>
  Claim C2 (the code departs from it). With the ten checkpoints that epochs 1 to 10 of
  one run leave, \<open>sorted(checkpoints)[-1]\<close> is the file of epoch 9, not of epoch 10
  (\<open>"..._10.pt"\<close> sorts before \<open>"..._2.pt"\<close>), and the resume step continues at epoch 10.
\<close>

theorem C2_resume_selects_epoch_9_of_10:
  "checkpoint_name (model_name example_str_float example_config) 10 \<in> set (map fst example_files) \<and>
   latest_checkpoint (map fst example_files) = ''sv_0.5_1000_p_9.pt'' \<and>
   resume example_str_float example_config (map fst example_files) (load_from example_files)
       (\<lambda>m. m) 0 0 = Inr (9, 9, 10)"
proof -
  have r: "\<not> retrain example_config" by (simp add: example_config_def)
  have ne: "map fst example_files \<noteq> []" unfolding example_listing by simp
  have ten: "checkpoint_name ''sv_0.5_1000_p'' 10 \<in> set (map fst example_files)"
    unfolding example_listing
    by (simp add: checkpoint_name_def str_int_def str_nat_10 digit_char_def)
  have res: "resume example_str_float example_config (map fst example_files)
       (load_from example_files) (\<lambda>m. m) 0 0 = Inr (9, 9, 10)"
    unfolding resume_def example_model_name example_filter Let_def
    using r ne by (simp only: example_latest example_load) simp
  from ten example_latest res show ?thesis
    unfolding example_model_name by blast
qed

text \<open>
  Claim C3. With \<open>retrain\<close> set, the resume step ignores every checkpoint: freshly
  initialised weights, epoch 1. Without \<open>retrain\<close> and with a checkpoint for the run key,
  the model and optimizer states are those of the checkpoint that is loaded and training
  resumes at its epoch plus one; with a single checkpoint, that one is loaded.
\<close>

theorem C3_resume_precedence:
  "(retrain cfg \<longrightarrow>
      resume str_float cfg listing load weight_init model optimizer
        = Inr (weight_init model, optimizer, 1)) \<and>
   (\<not> retrain cfg \<and> filter (\<lambda>f. startswith f (model_name str_float cfg)) listing \<noteq> [] \<and>
    load (latest_checkpoint (filter (\<lambda>f. startswith f (model_name str_float cfg)) listing)) = Inr ck \<longrightarrow>
      resume str_float cfg listing load weight_init model optimizer
        = Inr (model_state_dict ck, optimizer_state_dict ck, epoch ck + 1)) \<and>
   (\<not> retrain cfg \<and> filter (\<lambda>f. startswith f (model_name str_float cfg)) listing = [f] \<and>
    load f = Inr ck \<longrightarrow>
      resume str_float cfg listing load weight_init model optimizer
        = Inr (model_state_dict ck, optimizer_state_dict ck, epoch ck + 1))"
  by (simp add: resume_def Let_def latest_checkpoint_def)

theorem C3_witness:
  "resume example_str_float (example_config\<lparr>retrain := True\<rparr>) [''sv_0.5_1000_p_5.pt'']
      (\<lambda>f. Inr \<lparr>epoch = 5, model_state_dict = (7::nat), optimizer_state_dict = (8::nat)\<rparr>)
      (\<lambda>m. 0) 1 2 = Inr (0, 2, 1) \<and>
   resume example_str_float example_config [''sv_0.5_1000_p_5.pt'']
      (\<lambda>f. Inr \<lparr>epoch = 5, model_state_dict = (7::nat), optimizer_state_dict = (8::nat)\<rparr>)
      (\<lambda>m. 0) 1 2 = Inr (7, 8, 6)"
proof -
  have r: "\<not> retrain example_config" by (simp add: example_config_def)
  have f: "filter (\<lambda>f. startswith f (model_name example_str_float example_config))
             [''sv_0.5_1000_p_5.pt''] = [''sv_0.5_1000_p_5.pt'']"
    unfolding example_model_name by simp
  from C3_resume_precedence [where cfg = "example_config\<lparr>retrain := True\<rparr>"
      and str_float = example_str_float and listing = "[''sv_0.5_1000_p_5.pt'']"
      and load = "\<lambda>f. Inr \<lparr>epoch = 5, model_state_dict = (7::nat), optimizer_state_dict = (8::nat)\<rparr>"
      and weight_init = "\<lambda>m. 0" and model = 1 and optimizer = 2]
  have a: "resume example_str_float (example_config\<lparr>retrain := True\<rparr>) [''sv_0.5_1000_p_5.pt'']
      (\<lambda>f. Inr \<lparr>epoch = 5, model_state_dict = (7::nat), optimizer_state_dict = (8::nat)\<rparr>)
      (\<lambda>m. 0) 1 2 = Inr (0, 2, 1)" by simp
  from C3_resume_precedence [where cfg = example_config
      and str_float = example_str_float and listing = "[''sv_0.5_1000_p_5.pt'']"
      and load = "\<lambda>f. Inr \<lparr>epoch = 5, model_state_dict = (7::nat), optimizer_state_dict = (8::nat)\<rparr>"
      and f = "''sv_0.5_1000_p_5.pt''"
      and ck = "\<lparr>epoch = 5, model_state_dict = (7::nat), optimizer_state_dict = (8::nat)\<rparr>"
      and weight_init = "\<lambda>m. 0" and model = 1 and optimizer = 2] r f
  have b: "resume example_str_float example_config [''sv_0.5_1000_p_5.pt'']
      (\<lambda>f. Inr \<lparr>epoch = 5, model_state_dict = (7::nat), optimizer_state_dict = (8::nat)\<rparr>)
      (\<lambda>m. 0) 1 2 = Inr (7, 8, 6)" by simp
  from a b show ?thesis by simp
qed

text \<open>
  Claim C4 (the code departs from it). The guard is \<open>current_epoch < num_epochs\<close>: when
  the resumed epoch equals \<open>num_epochs\<close> no epoch is trained and no checkpoint is
  written, although that epoch does not exceed the total. A fresh run with
  \<open>num_epochs = 1\<close> returns the initialised model untrained.
\<close>

theorem C4_last_epoch_not_trained:
  "train_from (cfg\<lparr>num_epochs := n\<rparr>) f batches name st n = Inr (st, []) \<and>
   train sw str_float (cfg\<lparr>retrain := True, num_epochs := 1\<rparr>) listing load weight_init
       forward1 forward2 step batches' model optimizer
     = Inr ((weight_init model, optimizer), [])"
  by (simp add: train_from_def train_def resume_def Let_def)

lemma tdiv_zero: "tdiv x 0 = NonFin"
  by (cases x) simp_all

lemma eye_sum_zero: "mat_sum (eye n) = 0 \<Longrightarrow> eye n = []"
  using mat_sum_eye [of n] by (simp add: eye_def)

text \<open>
  Claim C5, as amended. No loss function checks its denominator: when the mask or the
  weights sum to zero the division is carried out and the loss is a non-finite value,
  returned without an error, for \<open>weighted_ns_loss\<close> and \<open>seq_seq_loss\<close> always and for
  \<open>node_node_loss\<close> and \<open>node_seq_loss\<close> whenever their mask and their hyperbolic
  distance are computed.
\<close>

theorem C5_zero_denominator_is_divided:
  "(mat_sum weights = 0 \<longrightarrow> weighted_ns_loss sw node_rep seq_rep weights = Inr NonFin) \<and>
   (mat_sum (eye (length seq_a)) = 0 \<longrightarrow> seq_seq_loss sw seq_a seq_b = Inr NonFin) \<and>
   (mat_sum (eye (length node_a)) = 0 \<and> hyperbolic_distance node_a node_b = Inr d \<longrightarrow>
      node_node_loss node_a node_b = Inr NonFin) \<and>
   (full_pos_mask (length seq_rep) (length node_rep) sequences = Inr full \<and>
    mat_sum (drop_last_column full) = 0 \<and> hyperbolic_distance seq_rep node_rep = Inr d' \<longrightarrow>
      node_seq_loss sw node_rep seq_rep sequences = Inr NonFin)"
proof (intro conjI impI)
  assume "mat_sum weights = 0"
  then show "weighted_ns_loss sw node_rep seq_rep weights = Inr NonFin"
    by (rule weighted_zero)
next
  assume "mat_sum (eye (length seq_a)) = 0"
  then show "seq_seq_loss sw seq_a seq_b = Inr NonFin"
    by (simp add: seq_seq_loss_def Let_def)
next
  assume a: "mat_sum (eye (length node_a)) = 0 \<and> hyperbolic_distance node_a node_b = Inr d"
  then have e: "eye (length node_a) = []" by (intro eye_sum_zero) simp
  show "node_node_loss node_a node_b = Inr NonFin"
    using a by (simp add: node_node_loss_def Let_def e vec_times_mask_def tdiv_zero mat_sum_def)
next
  assume a: "full_pos_mask (length seq_rep) (length node_rep) sequences = Inr full \<and>
    mat_sum (drop_last_column full) = 0 \<and> hyperbolic_distance seq_rep node_rep = Inr d'"
  then show "node_seq_loss sw node_rep seq_rep sequences = Inr NonFin"
    by (simp add: node_seq_loss_def Let_def)
qed

lemma hd_example: "hyperbolic_distance [[0]] [[0], [0], [0]] = Inr [Fin 0, Fin 0, Fin 0]"
  by (simp add: hyperbolic_distance_def sub_mat_def sub_row_def bcast_def norm_dim1_def row_norm_def)

lemma mask_example: "full_pos_mask 1 3 [[3, 3]] = Inr [[0, 0, 0, 1]]"
  by (simp add: full_pos_mask_def zeros_def numeral_3_eq_3 Let_def)

lemma mask_example_lengths:
  "full_pos_mask (length [[0::real]]) (length [[0], [0], [0::real]]) [[3, 3]] = Inr [[0, 0, 0, 1]]"
  by (simp add: full_pos_mask_def zeros_def Let_def)

lemma node_seq_loss_example:
  "node_seq_loss sw [[0], [0], [0]] [[0]] [[3, 3]] = Inr NonFin"
  unfolding node_seq_loss_def Let_def mask_example_lengths hd_example bind_err_simps
  by (simp add: drop_last_column_def mat_sum_def)

theorem C5_counterexample:
  "mat_sum [[0, 0]] = 0 \<and>
   weighted_ns_loss (\<lambda>a b. 1) [[0]] [[0]] [[0, 0]] = Inr NonFin \<and>
   full_pos_mask 1 3 [[3, 3]] = Inr [[0, 0, 0, 1]] \<and>
   mat_sum (drop_last_column [[0, 0, 0, 1]]) = 0 \<and>
   node_seq_loss (\<lambda>a b. 1) [[0], [0], [0]] [[0]] [[3, 3]] = Inr NonFin"
proof -
  have a: "mat_sum [[0, 0]] = 0" by (simp add: mat_sum_def)
  have b: "weighted_ns_loss (\<lambda>a b. 1) [[0]] [[0]] [[0, 0]] = Inr NonFin"
    using a by (rule weighted_zero)
  have c: "mat_sum (drop_last_column [[0, 0, 0, 1]]) = 0"
    by (simp add: mat_sum_def drop_last_column_def)
  from a b mask_example c node_seq_loss_example show ?thesis by blast
qed

theorem C5_witness:
  "weighted_ns_loss (\<lambda>a b. 2) [[0], [0], [0]] [[0]] [[0], [0]] = Inr NonFin \<and>
   seq_seq_loss (\<lambda>a b. 2) [] [] = Inr NonFin \<and>
   node_node_loss [] [] = Inr NonFin \<and>
   node_seq_loss (\<lambda>a b. 2) [[0], [0], [0]] [[0]] [[3, 3]] = Inr NonFin"
proof -
  have w: "mat_sum [[0], [0]] = 0" by (simp add: mat_sum_def)
  have e: "mat_sum (eye (length ([] :: matrix))) = 0" by (simp add: mat_sum_def eye_def)
  have h: "hyperbolic_distance [] [] = Inr []"
    by (simp add: hyperbolic_distance_def sub_mat_def bcast_def norm_dim1_def)
  have s: "mat_sum (drop_last_column [[0, 0, 0, 1]]) = 0"
    by (simp add: mat_sum_def drop_last_column_def)
  from C5_zero_denominator_is_divided [where weights = "[[0], [0]]" and sw = "\<lambda>a b. 2"
      and node_rep = "[[0], [0], [0]]" and seq_rep = "[[0]]" and seq_a = "[]" and seq_b = "[]"
      and node_a = "[]" and node_b = "[]" and d = "[]" and sequences = "[[3, 3]]"
      and full = "[[0, 0, 0, 1]]" and d' = "[Fin 0, Fin 0, Fin 0]"]
    w e h mask_example_lengths s hd_example
  show ?thesis by blast
qed

lemma getattr_padding:
  "getattr (UpdatedSingleViewModel_init expmap0 logmap0 gat_conv weight
       vocab_size embed_size hidden_size edge_index seq_encoder mode') ''padding''
     = Inl AttributeError"
  by (simp add: getattr_def UpdatedSingleViewModel_init_def)

lemma getattr_mode:
  "getattr (UpdatedSingleViewModel_init expmap0 logmap0 gat_conv weight
       vocab_size embed_size hidden_size edge_index seq_encoder mode') ''mode''
     = Inr (AStr mode')"
  by (simp add: getattr_def UpdatedSingleViewModel_init_def)

lemma getattr_node_embedding:
  "getattr (UpdatedSingleViewModel_init expmap0 logmap0 gat_conv weight
       vocab_size embed_size hidden_size edge_index seq_encoder mode') ''node_embedding''
     = Inr (AEmbedding weight)"
  by (simp add: getattr_def UpdatedSingleViewModel_init_def)

lemma encode_sequence_plain:
  "encode_sequence dropout_adj (UpdatedSingleViewModel_init expmap0 logmap0 gat_conv weight
       vocab_size embed_size hidden_size edge_index seq_encoder ''p'') sequences drop_rate
     = Inl AttributeError"
  by (simp add: encode_sequence_def getattr_mode getattr_node_embedding getattr_padding)

lemma encode_sequence_propagated:
  assumes "mode' \<noteq> ''p''"
  shows "encode_sequence dropout_adj (UpdatedSingleViewModel_init expmap0 logmap0 gat_conv weight
       vocab_size embed_size hidden_size edge_index seq_encoder mode') sequences drop_rate
     = (case encode_graph dropout_adj (UpdatedSingleViewModel_init expmap0 logmap0 gat_conv weight
            vocab_size embed_size hidden_size edge_index seq_encoder mode') 0 of
          Inl e \<Rightarrow> Inl e | Inr node_enc \<Rightarrow> Inl AttributeError)"
  using assms
  by (simp add: encode_sequence_def getattr_mode getattr_padding split: sum.splits)

lemma encode_sequence_never_returns:
  "encode_sequence dropout_adj (UpdatedSingleViewModel_init expmap0 logmap0 gat_conv weight
       vocab_size embed_size hidden_size edge_index seq_encoder mode') sequences drop_rate
     \<noteq> Inr v"
proof (cases "mode' = ''p''")
  case True
  then show ?thesis by (simp add: encode_sequence_plain)
next
  case False
  then show ?thesis by (simp add: encode_sequence_propagated split: sum.splits)
qed

text \<open>
  Claim C10, as amended. The constructor of \<open>UpdatedSingleViewModel\<close> assigns no
  attribute \<open>padding\<close>, so \<open>encode_sequence\<close> never returns a value, and neither does
  \<open>forward\<close>. In mode \<open>'p'\<close> \<open>encode_sequence\<close> raises \<open>AttributeError\<close> for every input.
  In the other mode, and in \<open>forward\<close>, \<open>encode_graph\<close> runs first: when it returns, the
  error is \<open>AttributeError\<close>; when it raises, its own error is the one that propagates.
\<close>

theorem C10_encode_sequence_raises:
  assumes self_def: "self = UpdatedSingleViewModel_init expmap logmap gat_conv weight
       vocab_size embed_size hidden_size edge_index seq_encoder mode'"
  shows "getattr self ''padding'' = Inl AttributeError \<and>
    (\<forall>v. encode_sequence dropout_adj self sequences drop_rate \<noteq> Inr v) \<and>
    (\<forall>v. forward dropout_adj self sequences drop_edge_rate drop_rate \<noteq> Inr v) \<and>
    (mode' = ''p'' \<longrightarrow> encode_sequence dropout_adj self sequences drop_rate = Inl AttributeError) \<and>
    (mode' \<noteq> ''p'' \<and> encode_graph dropout_adj self 0 = Inr g \<longrightarrow>
       encode_sequence dropout_adj self sequences drop_rate = Inl AttributeError) \<and>
    (encode_graph dropout_adj self drop_edge_rate = Inr g' \<and>
     (mode' = ''p'' \<or> encode_graph dropout_adj self 0 = Inr g) \<longrightarrow>
       forward dropout_adj self sequences drop_edge_rate drop_rate = Inl AttributeError) \<and>
    (mode' \<noteq> ''p'' \<and> encode_graph dropout_adj self 0 = Inl err \<longrightarrow>
       encode_sequence dropout_adj self sequences drop_rate = Inl err) \<and>
    (encode_graph dropout_adj self drop_edge_rate = Inl err' \<longrightarrow>
       forward dropout_adj self sequences drop_edge_rate drop_rate = Inl err')"
proof -
  have never: "encode_sequence dropout_adj self sequences drop_rate \<noteq> Inr v" for v
    unfolding self_def by (rule encode_sequence_never_returns)
  have plain: "mode' = ''p'' \<Longrightarrow> encode_sequence dropout_adj self sequences drop_rate = Inl AttributeError"
    unfolding self_def by (simp add: encode_sequence_plain)
  have propagated: "mode' \<noteq> ''p'' \<Longrightarrow> encode_graph dropout_adj self 0 = Inr g \<Longrightarrow>
      encode_sequence dropout_adj self sequences drop_rate = Inl AttributeError"
    unfolding self_def by (simp add: encode_sequence_propagated)
  have graph_error: "mode' \<noteq> ''p'' \<Longrightarrow> encode_graph dropout_adj self 0 = Inl err \<Longrightarrow>
      encode_sequence dropout_adj self sequences drop_rate = Inl err"
    unfolding self_def by (simp add: encode_sequence_propagated)
  have fwd_never: "forward dropout_adj self sequences drop_edge_rate drop_rate \<noteq> Inr v" for v
    using never by (auto simp: forward_def bind_err_def split: sum.splits)
  have fwd: "forward dropout_adj self sequences drop_edge_rate drop_rate = Inl AttributeError"
    if eg: "encode_graph dropout_adj self drop_edge_rate = Inr g'"
      and m: "mode' = ''p'' \<or> encode_graph dropout_adj self 0 = Inr g"
  proof -
    have "encode_sequence dropout_adj self sequences drop_rate = Inl AttributeError"
      using m plain propagated by (cases "mode' = ''p''") simp_all
    then show ?thesis using eg by (simp add: forward_def)
  qed
  have fwd_error: "encode_graph dropout_adj self drop_edge_rate = Inl err' \<Longrightarrow>
      forward dropout_adj self sequences drop_edge_rate drop_rate = Inl err'"
    by (simp add: forward_def)
  have pad: "getattr self ''padding'' = Inl AttributeError"
    unfolding self_def by (rule getattr_padding)
  from pad never fwd_never plain propagated fwd graph_error fwd_error show ?thesis by blast
qed

lemma sized_encode_graph:
  "encode_graph (\<lambda>e p. e)
     (UpdatedSingleViewModel_init (\<lambda>x. x) (\<lambda>x. x) sized_layer [[0, 0], [0, 0]]
        2 2 3 [(0, 1)] (\<lambda>t s p. Inr t) m) r = Inl RuntimeError"
  by (simp add: encode_graph_def getattr_def UpdatedSingleViewModel_init_def
      HyperbolicGraphEncoder_def sized_layer_def numeral_2_eq_2 numeral_3_eq_3)

theorem C10_counterexample:
  "encode_sequence (\<lambda>e p. e)
     (UpdatedSingleViewModel_init (\<lambda>x. x) (\<lambda>x. x) sized_layer [[0, 0], [0, 0]]
        2 2 3 [(0, 1)] (\<lambda>t s p. Inr t) ''g'') [[0, 1]] 0 = Inl RuntimeError \<and>
   forward (\<lambda>e p. e)
     (UpdatedSingleViewModel_init (\<lambda>x. x) (\<lambda>x. x) sized_layer [[0, 0], [0, 0]]
        2 2 3 [(0, 1)] (\<lambda>t s p. Inr t) ''p'') [[0, 1]] 0 0 = Inl RuntimeError \<and>
   Inl RuntimeError \<noteq> (Inl AttributeError :: py_error + matrix)"
proof -
  have g: "''g'' \<noteq> ''p''" by simp
  have a: "encode_sequence (\<lambda>e p. e)
     (UpdatedSingleViewModel_init (\<lambda>x. x) (\<lambda>x. x) sized_layer [[0, 0], [0, 0]]
        2 2 3 [(0, 1)] (\<lambda>t s p. Inr t) ''g'') [[0, 1]] 0 = Inl RuntimeError"
    by (simp only: encode_sequence_propagated [OF g] sized_encode_graph sum.case)
  have b: "forward (\<lambda>e p. e)
     (UpdatedSingleViewModel_init (\<lambda>x. x) (\<lambda>x. x) sized_layer [[0, 0], [0, 0]]
        2 2 3 [(0, 1)] (\<lambda>t s p. Inr t) ''p'') [[0, 1]] 0 0 = Inl RuntimeError"
    by (simp only: forward_def sized_encode_graph bind_err_simps)
  from a b show ?thesis by simp
qed

lemma example_encode_graph:
  "encode_graph (\<lambda>e p. e)
     (UpdatedSingleViewModel_init (\<lambda>x. x) (\<lambda>x. x) example_layer [[0, 0], [0, 0]]
        2 2 2 [(0, 1)] (\<lambda>t s p. Inr t) m) r = Inr [[0, 0], [0, 0]]"
  by (simp add: encode_graph_def getattr_def UpdatedSingleViewModel_init_def
      HyperbolicGraphEncoder_def example_layer_def numeral_2_eq_2)

theorem C10_witness:
  "encode_sequence (\<lambda>e p. e)
     (UpdatedSingleViewModel_init (\<lambda>x. x) (\<lambda>x. x) example_layer [[0, 0], [0, 0]]
        2 2 2 [(0, 1)] (\<lambda>t s p. Inr t) ''p'') [[0, 1]] 0 = Inl AttributeError \<and>
   encode_sequence (\<lambda>e p. e)
     (UpdatedSingleViewModel_init (\<lambda>x. x) (\<lambda>x. x) example_layer [[0, 0], [0, 0]]
        2 2 2 [(0, 1)] (\<lambda>t s p. Inr t) ''g'') [[0, 1]] 0 = Inl AttributeError \<and>
   forward (\<lambda>e p. e)
     (UpdatedSingleViewModel_init (\<lambda>x. x) (\<lambda>x. x) example_layer [[0, 0], [0, 0]]
        2 2 2 [(0, 1)] (\<lambda>t s p. Inr t) ''p'') [[0, 1]] 0 0 = Inl AttributeError \<and>
   forward (\<lambda>e p. e)
     (UpdatedSingleViewModel_init (\<lambda>x. x) (\<lambda>x. x) example_layer [[0, 0], [0, 0]]
        2 2 2 [(0, 1)] (\<lambda>t s p. Inr t) ''g'') [[0, 1]] 0 0 = Inl AttributeError"
proof -
  have g: "''g'' \<noteq> ''p''" by simp
  note p = C10_encode_sequence_raises [OF refl, where mode' = "''p''" and dropout_adj = "\<lambda>e p. e"
      and expmap = "\<lambda>x. x" and logmap = "\<lambda>x. x" and gat_conv = example_layer
      and weight = "[[0, 0], [0, 0]]" and vocab_size = 2 and embed_size = 2 and hidden_size = 2
      and edge_index = "[(0, 1)]" and seq_encoder = "\<lambda>t s p. Inr t" and sequences = "[[0, 1]]"
      and drop_rate = 0 and drop_edge_rate = 0 and g = "[[0, 0], [0, 0]]" and g' = "[[0, 0], [0, 0]]"]
  note q = C10_encode_sequence_raises [OF refl, where mode' = "''g''" and dropout_adj = "\<lambda>e p. e"
      and expmap = "\<lambda>x. x" and logmap = "\<lambda>x. x" and gat_conv = example_layer
      and weight = "[[0, 0], [0, 0]]" and vocab_size = 2 and embed_size = 2 and hidden_size = 2
      and edge_index = "[(0, 1)]" and seq_encoder = "\<lambda>t s p. Inr t" and sequences = "[[0, 1]]"
      and drop_rate = 0 and drop_edge_rate = 0 and g = "[[0, 0], [0, 0]]" and g' = "[[0, 0], [0, 0]]"]
  from p q g example_encode_graph [of "''p''" 0] example_encode_graph [of "''g''" 0]
  show ?thesis by blast
qed

end
